theory Spec2Isabelle
  imports Main
begin

section \<open>Python values used by the transcriber\<close>

text \<open>
  An exception of class \<open>Exception\<close> is a class name and a message; \<open>str(e)\<close> is the
  message. A call that may raise returns \<open>exn + 'a\<close>, \<open>Inl\<close> being the raise.
  Signals outside class \<open>Exception\<close> (KeyboardInterrupt, SystemExit) are not modelled:
  no \<open>except Exception\<close> clause of the program names them.
\<close>

datatype exn = Exn string string

fun str_exn :: "exn \<Rightarrow> string" where
  "str_exn (Exn cls msg) = msg"

text \<open>
  A Python float is a sign, a mantissa and a binary exponent (the value is
  \<open>\<plusminus> m * 2 ^ e\<close>), an infinity or a NaN. The format spec \<open>.2f\<close> prints the decimal
  with two fractional digits that is nearest to the exact binary value, ties going to the
  even neighbour; the sign is kept also when the digits are all zero.
\<close>

datatype pyfloat = Finite bool nat int | Infinity bool | NaN


definition round_half_even :: "nat \<Rightarrow> nat \<Rightarrow> nat" where
  "round_half_even n d =
     (let q = n div d; r = n mod d
      in if 2 * r < d then q else if d < 2 * r then q + 1
         else if even q then q else q + 1)"

definition hundredths :: "nat \<Rightarrow> int \<Rightarrow> nat" where
  "hundredths m e =
     (if 0 \<le> e then m * 2 ^ nat e * 100
      else round_half_even (m * 100) (2 ^ nat (- e)))"

definition digit_char :: "nat \<Rightarrow> char" where
  "digit_char d = ''0123456789'' ! (d mod 10)"

fun decimal :: "nat \<Rightarrow> string" where
  "decimal n = (if n < 10 then [digit_char n] else decimal (n div 10) @ [digit_char n])"

declare decimal.simps [simp del]

definition format_2f :: "pyfloat \<Rightarrow> string" where
  "format_2f x =
     (case x of
        Finite s m e \<Rightarrow>
          (let h = hundredths m e
           in (if s then ''-'' else '''') @ decimal (h div 100) @ ''.'' @
              [digit_char (h div 10), digit_char h])
      | Infinity s \<Rightarrow> (if s then ''-inf'' else ''inf'')
      | NaN \<Rightarrow> ''nan'')"

text \<open>
  The values a chunk's timestamp is made of: the engine gives floats, and \<open>None\<close> where
  it predicted no time. \<open>None\<close> has no \<open>.2f\<close> format: formatting it raises TypeError.
\<close>

datatype pyval = PyFloat pyfloat | PyNone

fun fmt_2f :: "pyval \<Rightarrow> exn + string" where
  "fmt_2f (PyFloat x) = Inr (format_2f x)"
| "fmt_2f PyNone =
     Inl (Exn ''TypeError'' ''unsupported format string passed to NoneType.__format__'')"

text \<open>
  A string is a number with two decimals when it is an optional minus sign, at least one
  digit, a point and exactly two digits.
\<close>

definition is_digit :: "char \<Rightarrow> bool" where
  "is_digit c = (c \<in> set ''0123456789'')"


text \<open>
  \<open>isinstance(timestamp, tuple)\<close> separates a pair \<open>(start, end)\<close> from a single value.
\<close>

datatype timestamp = Tuple pyval pyval | Scalar pyval

text \<open>
  \<open>str.strip()\<close> removes the white space of both ends. A character is a code point
  below 256; Python's white space there is 9-13, 28-32, 133 and 160.
\<close>

definition py_isspace :: "char \<Rightarrow> bool" where
  "py_isspace c =
     (let n = (of_char c :: nat)
      in (9 \<le> n \<and> n \<le> 13) \<or> (28 \<le> n \<and> n \<le> 32) \<or> n = 133 \<or> n = 160)"

definition strip :: "string \<Rightarrow> string" where
  "strip s = rev (dropWhile py_isspace (rev (dropWhile py_isspace s)))"

section \<open>transcribe.py\<close>

subsection \<open>format\_timestamp\<close>

fun format_timestamp :: "timestamp \<Rightarrow> exn + string" where
  "format_timestamp (Tuple start end) =
     (case fmt_2f start of
        Inl e \<Rightarrow> Inl e
      | Inr a \<Rightarrow>
          (case fmt_2f end of
             Inl e \<Rightarrow> Inl e
           | Inr b \<Rightarrow> Inr (''['' @ a @ ''s -> '' @ b @ ''s]'')))"
| "format_timestamp (Scalar t) =
     (case fmt_2f t of
        Inl e \<Rightarrow> Inl e
      | Inr a \<Rightarrow> Inr (''['' @ a @ ''s]''))"

subsection \<open>MODELS and setup\_whisper\<close>

definition MODELS :: "(string \<times> string) list" where
  "MODELS =
     [(''tiny'', ''openai/whisper-tiny''),
      (''base'', ''openai/whisper-base''),
      (''small'', ''openai/whisper-small''),
      (''medium'', ''openai/whisper-medium''),
      (''large'', ''openai/whisper-large-v3-turbo'')]"

text \<open>
  What the program calls and does not define: the torch and transformers libraries and
  the file system. \<open>makedirs\<close> and \<open>model_from_pretrained\<close> say whether the call raises;
  \<open>build_pipeline\<close> stands for \<open>model.to(device)\<close>, the loading of the processor and the
  construction of the pipeline, which print nothing between them; \<open>run_pipeline\<close> is the
  call of a loaded pipeline on an audio path. A chunk is a timestamp and a text, a result
  the full text and the chunks.
\<close>

datatype chunk = Chunk (chunk_timestamp: timestamp) (chunk_text: string)

datatype transcript = Transcript (result_text: string) (result_chunks: "chunk list")

record 'h env =
  cuda_is_available :: bool
  makedirs :: "exn option"
  model_from_pretrained :: "string \<Rightarrow> exn option"
  build_pipeline :: "string \<Rightarrow> string \<Rightarrow> exn + 'h"
  run_pipeline :: "'h \<Rightarrow> string \<Rightarrow> exn + transcript"
  path_exists :: "string \<Rightarrow> bool"

abbreviation NL :: char where
  "NL \<equiv> CHR 0x0A"

text \<open>
  A function that prints returns the printed strings, one for each call of \<open>print\<close>,
  beside its result.
\<close>

definition setup_whisper :: "'h env \<Rightarrow> string \<Rightarrow> string list \<times> (exn + 'h)" where
  "setup_whisper env model_size =
     (let device = (if cuda_is_available env then ''cuda:0'' else ''cpu'');
          out1 = [''Using device: '' @ device]
      in case makedirs env of
           Some e \<Rightarrow> (out1, Inl e)
         | None \<Rightarrow>
             (case map_of MODELS ''small'' of
                None \<Rightarrow> (out1, Inl (Exn ''KeyError'' ''small''))
              | Some dflt \<Rightarrow>
                  (let model_id = (case map_of MODELS model_size of
                                     Some v \<Rightarrow> v | None \<Rightarrow> dflt);
                       out2 = out1 @ [NL # ''Downloading/Loading '' @ model_size @ '' model...'']
                   in case model_from_pretrained env model_id of
                        Some e \<Rightarrow> (out2, Inl e)
                      | None \<Rightarrow>
                          (out2 @ [''Model loaded successfully!''],
                           build_pipeline env model_id device))))"

subsection \<open>transcribe\_audio\<close>

text \<open>
  The pipeline argument is \<open>None\<close> when no model has been loaded; calling \<open>None\<close> raises
  TypeError inside the \<open>try\<close>.
\<close>

definition call_pipeline :: "'h env \<Rightarrow> 'h option \<Rightarrow> string \<Rightarrow> exn + transcript" where
  "call_pipeline env pipeline audio_path =
     (case pipeline of
        None \<Rightarrow> Inl (Exn ''TypeError''
                 (CHR 0x27 # ''NoneType'' @ CHR 0x27 # '' object is not callable''))
      | Some h \<Rightarrow> run_pipeline env h audio_path)"

definition transcribe_audio ::
  "'h env \<Rightarrow> string \<Rightarrow> 'h option \<Rightarrow> string list \<times> (exn + transcript option)" where
  "transcribe_audio env audio_path pipeline =
     (case call_pipeline env pipeline audio_path of
        Inr result \<Rightarrow> ([], Inr (Some result))
      | Inl e \<Rightarrow> ([''Error transcribing audio: '' @ str_exn e], Inr None))"

subsection \<open>main\<close>



section \<open>gui.py\<close>

subsection \<open>Widgets\<close>

text \<open>
  The \<open>state\<close> option of a widget. A button takes \<open>normal\<close> or \<open>disabled\<close>; a combobox
  is enabled in state \<open>readonly\<close> (the user chooses from the list and cannot type) and
  takes no input in state \<open>disabled\<close>. A text widget in state \<open>disabled\<close> ignores
  \<open>insert\<close> and \<open>delete\<close>: that is what makes it read-only. The content of the text
  widget is the list of the inserted strings, each with its tag. The calls into Tk
  (\<open>config\<close>, \<open>insert\<close>, \<open>delete\<close>, \<open>set\<close>, \<open>root.after\<close>) are taken to succeed.
\<close>

datatype wstate = State_normal | State_disabled | State_readonly

datatype tag = Tag_header | Tag_timestamp | Tag_text

record text_widget =
  tw_state :: wstate
  tw_content :: "(string \<times> tag option) list"

definition text_config :: "wstate \<Rightarrow> text_widget \<Rightarrow> text_widget" where
  "text_config st w = w\<lparr>tw_state := st\<rparr>"

definition text_delete_all :: "text_widget \<Rightarrow> text_widget" where
  "text_delete_all w = (if tw_state w = State_disabled then w else w\<lparr>tw_content := []\<rparr>)"

definition text_insert_end :: "string \<Rightarrow> tag option \<Rightarrow> text_widget \<Rightarrow> text_widget" where
  "text_insert_end str tg w =
     (if tw_state w = State_disabled then w
      else w\<lparr>tw_content := tw_content w @ [(str, tg)]\<rparr>)"

datatype progressbar = Stopped | Started nat

text \<open>
  The attributes of the \<open>WhisperGUI\<close> object that the handlers read and write.
\<close>

record 'h gui =
  select_button :: wstate
  model_combo :: wstate
  model_var :: string
  status_var :: string
  progress :: progressbar
  output_text :: text_widget
  pipe :: "'h option"
  current_model :: string

subsection \<open>Worker threads and queued callbacks\<close>

text \<open>
  A worker thread runs \<open>initialize_pipeline\<close> or the closure \<open>transcribe\<close>. Its state is
  the place it has reached, with the local variables that are bound there:
  \<^item> \<open>Ini_after_begin\<close>: before \<open>root.after\<close> of line 204;
  \<^item> \<open>Ini_setup\<close>: before the arguments of \<open>setup_whisper\<close> are evaluated (line 211);
  \<^item> \<open>Ini_loading m\<close>: inside \<open>setup_whisper(m)\<close>;
  \<^item> \<open>Ini_after_ready\<close>: \<open>self.pipe\<close> is assigned, before \<open>root.after\<close> of line 214;
  \<^item> \<open>Ini_except e\<close>: in the \<open>except\<close> clause, before \<open>root.after\<close> of line 221;
  \<^item> \<open>Ini_leave e\<close>: the callback is queued, the clause is not yet left;
  \<^item> \<open>Trn_after_begin p\<close>: before \<open>root.after\<close> of line 283;
  \<^item> \<open>Trn_call p\<close>: before the arguments of \<open>transcribe_audio\<close> are evaluated (line 289);
  \<^item> \<open>Trn_running p h\<close>: inside \<open>transcribe_audio(p, h)\<close>;
  \<^item> \<open>Trn_after_update r\<close>: \<open>result\<close> is bound, before \<open>root.after\<close> of line 325;
  \<^item> \<open>Trn_except e\<close>, \<open>Trn_leave e\<close>: as for \<open>initialize_pipeline\<close>, lines 327-332.

  The name \<open>e\<close> of \<open>except Exception as e\<close> is bound inside the clause only: Python
  unbinds it when the clause is left. A closure made in the clause shares the variable,
  and reads it when it is called.
\<close>

datatype 'h worker =
    Ini_after_begin
  | Ini_setup
  | Ini_loading string
  | Ini_after_ready
  | Ini_except exn
  | Ini_leave exn
  | Trn_after_begin string
  | Trn_call string
  | Trn_running string "'h option"
  | Trn_after_update "transcript option"
  | Trn_except exn
  | Trn_leave exn
  | Finished

fun cell_e :: "'h worker \<Rightarrow> exn option" where
  "cell_e (Ini_except e) = Some e"
| "cell_e (Ini_leave e) = Some e"
| "cell_e (Trn_except e) = Some e"
| "cell_e (Trn_leave e) = Some e"
| "cell_e w = None"

text \<open>
  The callables handed to \<open>root.after(0, ...)\<close>. \<open>Init_failed i\<close> and \<open>Handle_error i\<close>
  are the closures over the variable \<open>e\<close> of worker \<open>i\<close>.
\<close>

datatype callback =
    Init_begin
  | Init_ready
  | Init_failed nat
  | Transcribe_begin string
  | Update_output "transcript option"
  | Handle_error nat

record 'h sys =
  self :: "'h gui"
  after_queue :: "callback list"
  threads :: "'h worker list"
  console :: "string list"
  reported :: "exn list"

definition NameError_e :: exn where
  "NameError_e =
     Exn ''NameError''
       (''cannot access free variable '' @ CHR 0x27 # ''e'' @ CHR 0x27 #
        '' where it is not associated with a value in enclosing scope'')"

definition read_e :: "'h worker list \<Rightarrow> nat \<Rightarrow> exn + exn" where
  "read_e ths i =
     (if i < length ths then
        (case cell_e (ths ! i) of None \<Rightarrow> Inl NameError_e | Some e \<Rightarrow> Inr e)
      else Inl NameError_e)"

definition basename :: "string \<Rightarrow> string" where
  "basename p = rev (takeWhile (\<lambda>c. c \<noteq> CHR ''/'') (rev p))"

subsection \<open>The callbacks of initialize\_pipeline\<close>

definition init_begin :: "'h gui \<Rightarrow> 'h gui" where
  "init_begin g =
     g\<lparr>select_button := State_disabled,
       model_combo := State_disabled,
       status_var := ''Downloading model... This may take a few minutes...'',
       progress := Stopped\<rparr>"

definition init_ready :: "'h gui \<Rightarrow> 'h gui" where
  "init_ready g =
     g\<lparr>select_button := State_normal,
       model_combo := State_readonly,
       status_var := ''Ready'',
       progress := Stopped\<rparr>"

text \<open>
  The list display of line 221 is evaluated from left to right: the two \<open>config\<close> calls
  are done when \<open>str(e)\<close> is evaluated, and a NameError there leaves the status and the
  progress bar as they were.
\<close>

definition init_failed :: "exn + exn \<Rightarrow> 'h gui \<Rightarrow> 'h gui \<times> exn option" where
  "init_failed e g =
     (let g1 = g\<lparr>select_button := State_disabled, model_combo := State_readonly\<rparr>
      in case e of
           Inl err \<Rightarrow> (g1, Some err)
         | Inr ex \<Rightarrow>
             (g1\<lparr>status_var := ''Error initializing: '' @ str_exn ex,
                 progress := Stopped\<rparr>, None))"

subsection \<open>The callbacks of transcribe\_file\<close>

definition transcribe_begin :: "string \<Rightarrow> 'h gui \<Rightarrow> 'h gui" where
  "transcribe_begin file_path g =
     g\<lparr>select_button := State_disabled,
       status_var := ''Transcribing '' @ basename file_path @ ''...'',
       progress := Started 10\<rparr>"

definition time_str :: "timestamp \<Rightarrow> exn + string" where
  "time_str ts =
     (case ts of
        Tuple start end \<Rightarrow>
          (case fmt_2f start of
             Inl e \<Rightarrow> Inl e
           | Inr a \<Rightarrow>
               (case fmt_2f end of
                  Inl e \<Rightarrow> Inl e
                | Inr b \<Rightarrow> Inr (''['' @ a @ ''s -> '' @ b @ ''s]'')))
      | Scalar t \<Rightarrow>
          (case fmt_2f t of
             Inl e \<Rightarrow> Inl e
           | Inr a \<Rightarrow> Inr (''['' @ a @ ''s]'')))"

fun insert_chunks :: "chunk list \<Rightarrow> text_widget \<Rightarrow> text_widget \<times> exn option" where
  "insert_chunks [] w = (w, None)"
| "insert_chunks (c # cs) w =
     (case time_str (chunk_timestamp c) of
        Inl e \<Rightarrow> (w, Some e)
      | Inr t \<Rightarrow>
          insert_chunks cs
            (text_insert_end [NL, NL] None
              (text_insert_end (strip (chunk_text c)) (Some Tag_text)
                (text_insert_end (t @ '' '') (Some Tag_timestamp) w))))"

text \<open>
  The body of the \<open>try\<close> of \<open>update_output\<close>: the widget it leaves and the exception that
  ended it, if one did.
\<close>

definition update_output_try :: "transcript option \<Rightarrow> text_widget \<Rightarrow> text_widget \<times> exn option" where
  "update_output_try result w =
     (let w1 = text_delete_all (text_config State_normal w)
      in case result of
           None \<Rightarrow> (w1, None)
         | Some r \<Rightarrow>
             insert_chunks (result_chunks r)
               (text_insert_end [NL] None
                 (text_insert_end (''Timestamped Chunks:'' @ [NL]) (Some Tag_header)
                   (text_insert_end [NL, NL, NL] None
                     (text_insert_end (strip (result_text r)) (Some Tag_text)
                       (text_insert_end [NL] None
                         (text_insert_end (''Full Transcription:'' @ [NL]) (Some Tag_header)
                           w1)))))))"

text \<open>
  The \<open>finally\<close> runs on every way out of the \<open>try\<close>; an exception of the body goes on to
  the caller after it.
\<close>

definition update_output :: "transcript option \<Rightarrow> 'h gui \<Rightarrow> 'h gui \<times> exn option" where
  "update_output result g =
     (let (w, ex) = update_output_try result (output_text g)
      in (g\<lparr>output_text := text_config State_disabled w,
            progress := Stopped,
            select_button := State_normal,
            status_var := ''Transcription complete''\<rparr>, ex))"

definition handle_error :: "exn + exn \<Rightarrow> 'h gui \<Rightarrow> 'h gui \<times> exn option" where
  "handle_error e g =
     (let g1 = g\<lparr>progress := Stopped, select_button := State_normal\<rparr>
      in case e of
           Inl err \<Rightarrow> (g1, Some err)
         | Inr ex \<Rightarrow> (g1\<lparr>status_var := ''Error: '' @ str_exn ex\<rparr>, None))"

definition run_callback :: "'h worker list \<Rightarrow> callback \<Rightarrow> 'h gui \<Rightarrow> 'h gui \<times> exn option" where
  "run_callback ths cb g =
     (case cb of
        Init_begin \<Rightarrow> (init_begin g, None)
      | Init_ready \<Rightarrow> (init_ready g, None)
      | Init_failed i \<Rightarrow> init_failed (read_e ths i) g
      | Transcribe_begin p \<Rightarrow> (transcribe_begin p g, None)
      | Update_output r \<Rightarrow> update_output r g
      | Handle_error i \<Rightarrow> handle_error (read_e ths i) g)"

subsection \<open>The handlers that run on the event loop's thread\<close>

definition spawn :: "'h worker \<Rightarrow> 'h sys \<Rightarrow> 'h sys" where
  "spawn w s = s\<lparr>threads := threads s @ [w]\<rparr>"

definition on_model_change :: "'h sys \<Rightarrow> 'h sys" where
  "on_model_change s =
     (let new_model = model_var (self s)
      in if new_model \<noteq> current_model (self s) then
           spawn Ini_after_begin
             (s\<lparr>self := (self s)
                  \<lparr>current_model := new_model,
                   select_button := State_disabled,
                   model_combo := State_disabled,
                   progress := Stopped,
                   status_var := ''Downloading '' @ new_model @
                                 '' model... This may take a few minutes...''\<rparr>\<rparr>)
         else s)"

definition transcribe_file :: "'h env \<Rightarrow> string \<Rightarrow> 'h sys \<Rightarrow> 'h sys" where
  "transcribe_file env file_path s =
     (if \<not> path_exists env file_path then
        s\<lparr>self := (self s)\<lparr>status_var := ''Error: File not found''\<rparr>\<rparr>
      else spawn (Trn_after_begin file_path) s)"

text \<open>
  \<open>select_file\<close> with the answer of the file dialog, which is empty when the user cancels.
\<close>

definition select_file :: "'h env \<Rightarrow> string \<Rightarrow> 'h sys \<Rightarrow> 'h sys" where
  "select_file env file_path s =
     (if file_path \<noteq> [] then transcribe_file env file_path s else s)"

subsection \<open>The steps of a worker thread\<close>

definition set_thread :: "nat \<Rightarrow> 'h worker \<Rightarrow> 'h sys \<Rightarrow> 'h sys" where
  "set_thread i w s = s\<lparr>threads := (threads s)[i := w]\<rparr>"

definition root_after :: "callback \<Rightarrow> 'h sys \<Rightarrow> 'h sys" where
  "root_after cb s = s\<lparr>after_queue := after_queue s @ [cb]\<rparr>"

definition thread_step :: "'h env \<Rightarrow> nat \<Rightarrow> 'h sys \<Rightarrow> 'h sys" where
  "thread_step env i s =
     (if i < length (threads s) then
        (case threads s ! i of
           Ini_after_begin \<Rightarrow> set_thread i Ini_setup (root_after Init_begin s)
         | Ini_setup \<Rightarrow> set_thread i (Ini_loading (current_model (self s))) s
         | Ini_loading m \<Rightarrow>
             (let (out, r) = setup_whisper env m;
                  s1 = s\<lparr>console := console s @ out\<rparr>
              in case r of
                   Inr h \<Rightarrow> set_thread i Ini_after_ready (s1\<lparr>self := (self s1)\<lparr>pipe := Some h\<rparr>\<rparr>)
                 | Inl e \<Rightarrow> set_thread i (Ini_except e) s1)
         | Ini_after_ready \<Rightarrow> set_thread i Finished (root_after Init_ready s)
         | Ini_except e \<Rightarrow> set_thread i (Ini_leave e) (root_after (Init_failed i) s)
         | Ini_leave e \<Rightarrow> set_thread i Finished s
         | Trn_after_begin p \<Rightarrow> set_thread i (Trn_call p) (root_after (Transcribe_begin p) s)
         | Trn_call p \<Rightarrow> set_thread i (Trn_running p (pipe (self s))) s
         | Trn_running p h \<Rightarrow>
             (let (out, r) = transcribe_audio env p h;
                  s1 = s\<lparr>console := console s @ out\<rparr>
              in case r of
                   Inr result \<Rightarrow> set_thread i (Trn_after_update result) s1
                 | Inl e \<Rightarrow> set_thread i (Trn_except e) s1)
         | Trn_after_update result \<Rightarrow> set_thread i Finished (root_after (Update_output result) s)
         | Trn_except e \<Rightarrow> set_thread i (Trn_leave e) (root_after (Handle_error i) s)
         | Trn_leave e \<Rightarrow> set_thread i Finished s
         | Finished \<Rightarrow> s)
      else s)"

subsection \<open>The event loop\<close>

text \<open>
  What can happen next: Tk runs the oldest queued callback (an exception of the callback
  is reported and the loop goes on); a worker thread runs to its next place; the user
  chooses an entry of the combobox, which takes input only in state \<open>readonly\<close>; the user
  presses the button, which takes input only in state \<open>normal\<close>, and answers the dialog;
  or \<open>transcribe_file\<close> is called directly. An event that is not possible changes nothing.
\<close>

datatype event =
    Tk_after
  | Thread_run nat
  | Combobox_selected string
  | Button_pressed string
  | Call_transcribe_file string

definition tk_after :: "'h sys \<Rightarrow> 'h sys" where
  "tk_after s =
     (case after_queue s of
        [] \<Rightarrow> s
      | cb # q \<Rightarrow>
          (let (g, ex) = run_callback (threads s) cb (self s)
           in s\<lparr>self := g, after_queue := q,
                reported := reported s @ (case ex of None \<Rightarrow> [] | Some e \<Rightarrow> [e])\<rparr>))"

definition exec :: "'h env \<Rightarrow> event \<Rightarrow> 'h sys \<Rightarrow> 'h sys" where
  "exec env ev s =
     (case ev of
        Tk_after \<Rightarrow> tk_after s
      | Thread_run i \<Rightarrow> thread_step env i s
      | Combobox_selected m \<Rightarrow>
          (if model_combo (self s) = State_readonly \<and> m \<in> set (map fst MODELS)
           then on_model_change (s\<lparr>self := (self s)\<lparr>model_var := m\<rparr>\<rparr>)
           else s)
      | Button_pressed p \<Rightarrow>
          (if select_button (self s) = State_normal then select_file env p s else s)
      | Call_transcribe_file p \<Rightarrow> transcribe_file env p s)"

fun run :: "('h env \<times> event) list \<Rightarrow> 'h sys \<Rightarrow> 'h sys" where
  "run [] s = s"
| "run ((env, ev) # evs) s = run evs (exec env ev s)"

text \<open>
  The state in which \<open>__init__\<close> hands over to the event loop: the button is created
  disabled and the combobox readonly, the first worker is started, and the text widget
  has been made read-only.
\<close>

definition init_sys :: "'h sys" where
  "init_sys =
     \<lparr>self = \<lparr>select_button = State_disabled,
              model_combo = State_readonly,
              model_var = ''small'',
              status_var = ''Initializing Whisper model...'',
              progress = Stopped,
              output_text = \<lparr>tw_state = State_disabled, tw_content = []\<rparr>,
              pipe = None,
              current_model = ''small''\<rparr>,
      after_queue = [],
      threads = [Ini_after_begin],
      console = [],
      reported = []\<rparr>"

inductive reachable :: "'h sys \<Rightarrow> bool" where
  reachable_init: "reachable init_sys"
| reachable_exec: "reachable s \<Longrightarrow> reachable (exec env ev s)"

subsection \<open>Predicates on states\<close>

text \<open>
  A worker is in the \<open>except\<close> clause of \<open>transcribe\<close>; a callback is its \<open>handle_error\<close>.
\<close>

fun in_transcribe_except :: "'h worker \<Rightarrow> bool" where
  "in_transcribe_except (Trn_except e) = True"
| "in_transcribe_except (Trn_leave e) = True"
| "in_transcribe_except w = False"

fun is_handle_error :: "callback \<Rightarrow> bool" where
  "is_handle_error (Handle_error i) = True"
| "is_handle_error cb = False"

definition no_transcribe_except :: "'h sys \<Rightarrow> bool" where
  "no_transcribe_except s =
     (list_all (\<lambda>w. \<not> in_transcribe_except w) (threads s) \<and>
      list_all (\<lambda>cb. \<not> is_handle_error cb) (after_queue s))"

text \<open>
  The application is ready: both controls take input and no job is in flight (every
  worker has ended and no callback is waiting).
\<close>

fun finished :: "'h worker \<Rightarrow> bool" where
  "finished Finished = True"
| "finished w = False"

definition is_ready :: "'h sys \<Rightarrow> bool" where
  "is_ready s =
     (select_button (self s) = State_normal \<and> model_combo (self s) = State_readonly \<and>
      list_all finished (threads s) \<and> after_queue s = [])"

text \<open>
  Both controls that start a job are disabled. The completion callback of the load job of
  worker \<open>n\<close> is \<open>Init_ready\<close> or \<open>Init_failed n\<close>; an event completes the job when it
  is Tk running that callback. \<open>disabled_until_completion n evs s\<close> says that, along the
  events \<open>evs\<close> from \<open>s\<close>, both controls are disabled in every state up to the one in
  which the completion callback runs, or up to the end of \<open>evs\<close> when it does not run.
\<close>

definition both_disabled :: "'h sys \<Rightarrow> bool" where
  "both_disabled s =
     (select_button (self s) = State_disabled \<and> model_combo (self s) = State_disabled)"

fun load_completion :: "nat \<Rightarrow> callback \<Rightarrow> bool" where
  "load_completion n Init_ready = True"
| "load_completion n (Init_failed i) = (i = n)"
| "load_completion n cb = False"

fun completes :: "nat \<Rightarrow> event \<Rightarrow> 'h sys \<Rightarrow> bool" where
  "completes n Tk_after s =
     (case after_queue s of [] \<Rightarrow> False | cb # q \<Rightarrow> load_completion n cb)"
| "completes n ev s = False"

fun disabled_until_completion :: "nat \<Rightarrow> ('h env \<times> event) list \<Rightarrow> 'h sys \<Rightarrow> bool" where
  "disabled_until_completion n [] s = both_disabled s"
| "disabled_until_completion n ((env, ev) # evs) s =
     (both_disabled s \<and>
      (completes n ev s \<or> disabled_until_completion n evs (exec env ev s)))"

fun is_direct_call :: "event \<Rightarrow> bool" where
  "is_direct_call (Call_transcribe_file p) = True"
| "is_direct_call ev = False"

text \<open>
  Where the only job in flight is the load job of worker \<open>n\<close>: the places of the worker
  with the callbacks that can be waiting there.
\<close>

fun load_phase :: "nat \<Rightarrow> 'h worker \<Rightarrow> callback list \<Rightarrow> bool" where
  "load_phase n Ini_after_begin q = (q = [])"
| "load_phase n Ini_setup q = (q = [Init_begin] \<or> q = [])"
| "load_phase n (Ini_loading m) q = (q = [Init_begin] \<or> q = [])"
| "load_phase n Ini_after_ready q = (q = [Init_begin] \<or> q = [])"
| "load_phase n (Ini_except e) q = (q = [Init_begin] \<or> q = [])"
| "load_phase n (Ini_leave e) q = (q = [Init_begin, Init_failed n] \<or> q = [Init_failed n])"
| "load_phase n Finished q =
     (q = [Init_begin, Init_ready] \<or> q = [Init_ready] \<or>
      q = [Init_begin, Init_failed n] \<or> q = [Init_failed n])"
| "load_phase n w q = False"

definition load_in_flight :: "nat \<Rightarrow> 'h sys \<Rightarrow> bool" where
  "load_in_flight n s =
     (both_disabled s \<and> length (threads s) = Suc n \<and>
      list_all finished (take n (threads s)) \<and>
      load_phase n (threads s ! n) (after_queue s))"

section \<open>Scenarios\<close>

text \<open>
  Concrete environments and runs on which the properties below are evaluated. A handle
  is named by the model it was built from. The file \<open>a.wav\<close> exists and no other does.
  1.5 is \<open>3 * 2^-1\<close>, 3.25 is \<open>13 * 2^-2\<close> and 2.0 is \<open>2 * 2^0\<close>.
\<close>

definition tr_ok :: transcript where
  "tr_ok =
     Transcript '' so it begins ''
       [Chunk (Tuple (PyFloat (Finite False 3 (- 1))) (PyFloat (Finite False 13 (- 2)))) '' so it'',
        Chunk (Scalar (PyFloat (Finite False 2 0))) ''begins '']"

text \<open>The engine predicted no end for the last chunk.\<close>

definition tr_open_end :: transcript where
  "tr_open_end =
     Transcript '' so it begins ''
       [Chunk (Tuple (PyFloat (Finite False 3 (- 1))) (PyFloat (Finite False 13 (- 2)))) '' so it'',
        Chunk (Tuple (PyFloat (Finite False 13 (- 2))) PyNone) ''begins '']"

definition env_ok :: "string env" where
  "env_ok =
     \<lparr>cuda_is_available = False,
      makedirs = None,
      model_from_pretrained = (\<lambda>model_id. None),
      build_pipeline = (\<lambda>model_id device. Inr model_id),
      run_pipeline = (\<lambda>h audio_path. Inr tr_ok),
      path_exists = (\<lambda>p. p = ''a.wav'')\<rparr>"

definition env_load_fails :: "string env" where
  "env_load_fails =
     env_ok\<lparr>model_from_pretrained := (\<lambda>model_id. Some (Exn ''OSError'' ''no connection''))\<rparr>"

definition env_infer_fails :: "string env" where
  "env_infer_fails =
     env_ok\<lparr>run_pipeline := (\<lambda>h audio_path. Inl (Exn ''ValueError'' ''bad audio''))\<rparr>"

definition env_open_end :: "string env" where
  "env_open_end = env_ok\<lparr>run_pipeline := (\<lambda>h audio_path. Inr tr_open_end)\<rparr>"

text \<open>
  The first worker loads the default model and both of its callbacks run: the
  application is ready.
\<close>

definition boot :: "event list" where
  "boot = [Thread_run 0, Tk_after, Thread_run 0, Thread_run 0, Thread_run 0, Tk_after]"

definition ready_state :: "string sys" where
  "ready_state = run (map (Pair env_ok) boot) init_sys"

text \<open>The user has chosen \<open>a.wav\<close>: the second worker is started and has not run yet.\<close>

definition submitted_state :: "string sys" where
  "submitted_state = exec env_ok (Button_pressed ''a.wav'') ready_state"

text \<open>The second worker has queued its first callback and Tk has run it.\<close>

definition begun_state :: "string sys" where
  "begun_state = run (map (Pair env_ok) [Thread_run 1, Tk_after]) submitted_state"

text \<open>
  Before the second worker runs, the user chooses \<open>tiny\<close>; the third worker loads it and
  assigns \<open>self.pipe\<close>; then the second worker reaches its call of \<open>transcribe_audio\<close>.
\<close>

definition switched_state :: "string sys" where
  "switched_state =
     run (map (Pair env_ok)
           [Combobox_selected ''tiny'', Thread_run 2, Thread_run 2, Thread_run 2,
            Thread_run 1, Thread_run 1])
         submitted_state"

text \<open>
  The load of the default model fails. In \<open>load_failed_late\<close> the worker leaves its
  \<open>except\<close> clause before Tk runs the queued callback; in \<open>load_failed_early\<close> Tk runs
  the callback first.
\<close>

definition load_failed_late :: "string sys" where
  "load_failed_late =
     run (map (Pair env_load_fails)
           [Thread_run 0, Tk_after, Thread_run 0, Thread_run 0, Thread_run 0,
            Thread_run 0, Tk_after])
         init_sys"

definition load_failed_early :: "string sys" where
  "load_failed_early =
     run (map (Pair env_load_fails)
           [Thread_run 0, Tk_after, Thread_run 0, Thread_run 0, Thread_run 0,
            Tk_after, Thread_run 0])
         init_sys"

text \<open>
  A whole transcription job from the ready state: the worker queues its first callback,
  reads the handle, runs the engine and queues \<open>update_output\<close>; Tk runs both callbacks.
\<close>

definition job :: "event list" where
  "job = [Button_pressed ''a.wav'', Thread_run 1, Tk_after, Thread_run 1, Thread_run 1,
          Thread_run 1, Tk_after]"

definition infer_failed_state :: "string sys" where
  "infer_failed_state = run (map (Pair env_infer_fails) job) ready_state"

definition open_end_state :: "string sys" where
  "open_end_state = run (map (Pair env_open_end) job) ready_state"

section \<open>Properties\<close>

lemma reachable_run: "reachable s \<Longrightarrow> reachable (run evs s)"
proof (induction evs arbitrary: s)
  case Nil
  then show ?case by simp
next
  case (Cons x evs)
  obtain env ev where x: "x = (env, ev)" by (cases x)
  from Cons.prems have "reachable (exec env ev s)" by (rule reachable_exec)
  then have "reachable (run evs (exec env ev s))" by (rule Cons.IH)
  then show ?case by (simp add: x)
qed


subsection \<open>Evaluation of the scenarios\<close>

lemma format_2f_1_5: "format_2f (Finite False 3 (- 1)) = ''1.50''"
  by (simp add: format_2f_def hundredths_def round_half_even_def decimal.simps digit_char_def)

lemma format_2f_3_25: "format_2f (Finite False 13 (- 2)) = ''3.25''"
  by (simp add: format_2f_def hundredths_def round_half_even_def decimal.simps digit_char_def)

lemma format_2f_2_0: "format_2f (Finite False 2 0) = ''2.00''"
  by (simp add: format_2f_def hundredths_def round_half_even_def decimal.simps digit_char_def)

lemma text_insert_end_normal:
  "text_insert_end str tg \<lparr>tw_state = State_normal, tw_content = c\<rparr> =
     \<lparr>tw_state = State_normal, tw_content = c @ [(str, tg)]\<rparr>"
  by (simp add: text_insert_end_def)

lemma text_clear:
  "text_delete_all (text_config State_normal w) = \<lparr>tw_state = State_normal, tw_content = []\<rparr>"
  by (simp add: text_delete_all_def text_config_def)

lemma text_config_record:
  "text_config st \<lparr>tw_state = st', tw_content = c\<rparr> = \<lparr>tw_state = st, tw_content = c\<rparr>"
  by (simp add: text_config_def)

lemma text_delete_all_normal:
  "text_delete_all \<lparr>tw_state = State_normal, tw_content = c\<rparr> =
     \<lparr>tw_state = State_normal, tw_content = []\<rparr>"
  by (simp add: text_delete_all_def)

lemmas widget_eval =
  text_insert_end_normal text_clear text_config_record text_delete_all_normal

lemmas render_eval =
  update_output_def update_output_try_def time_str_def split_beta widget_eval
  format_2f_1_5 format_2f_3_25 format_2f_2_0 strip_def py_isspace_def

lemmas sys_eval =
  exec_def tk_after_def thread_step_def set_thread_def root_after_def run_callback_def
  init_begin_def init_ready_def init_failed_def transcribe_begin_def handle_error_def
  read_e_def on_model_change_def select_file_def transcribe_file_def spawn_def
  setup_whisper_def transcribe_audio_def call_pipeline_def MODELS_def basename_def Let_def

lemmas env_eval = env_ok_def env_load_fails_def env_infer_fails_def env_open_end_def

lemma ready_state_eq:
  "ready_state =
     \<lparr>self = \<lparr>select_button = State_normal, model_combo = State_readonly,
              model_var = ''small'', status_var = ''Ready'', progress = Stopped,
              output_text = \<lparr>tw_state = State_disabled, tw_content = []\<rparr>,
              pipe = Some ''openai/whisper-small'', current_model = ''small''\<rparr>,
      after_queue = [], threads = [Finished],
      console = [''Using device: cpu'', NL # ''Downloading/Loading small model...'',
                 ''Model loaded successfully!''],
      reported = []\<rparr>"
  by (simp add: ready_state_def boot_def init_sys_def sys_eval env_eval)

lemma submitted_state_eq:
  "submitted_state = ready_state\<lparr>threads := [Finished, Trn_after_begin ''a.wav'']\<rparr>"
  by (simp add: submitted_state_def ready_state_eq sys_eval env_eval)

lemma is_ready_ready_state: "is_ready ready_state"
  by (simp add: is_ready_def ready_state_eq)

lemma reachable_ready_state: "reachable ready_state"
  unfolding ready_state_def by (intro reachable_run reachable_init)


subsection \<open>Timestamp labels\<close>

lemma is_digit_digit_char: "is_digit (digit_char d)"
proof -
  have "d mod 10 < length ''0123456789''" by simp
  then have "''0123456789'' ! (d mod 10) \<in> set ''0123456789''" by (rule nth_mem)
  then show ?thesis by (simp only: is_digit_def digit_char_def)
qed

lemma digit_char_not_minus: "digit_char d \<noteq> CHR ''-''"
  using is_digit_digit_char [of d] by (auto simp: is_digit_def)






lemma time_str_format_timestamp: "time_str ts = format_timestamp ts"
  by (cases ts) (simp_all add: time_str_def)



subsection \<open>Rendering\<close>

lemma tw_state_text_insert_end [simp]: "tw_state (text_insert_end str tg w) = tw_state w"
  by (simp add: text_insert_end_def)

lemma tw_state_insert_chunks [simp]: "tw_state (fst (insert_chunks cs w)) = tw_state w"
  by (induction cs arbitrary: w) (simp_all split: sum.splits)

lemma update_output_try_text_config [simp]:
  "update_output_try r (text_config st w) = update_output_try r w"
  by (simp add: update_output_try_def text_config_def text_delete_all_def)

lemma update_output_try_content:
  "update_output_try r (w\<lparr>tw_content := c\<rparr>) = update_output_try r w"
  by (simp add: update_output_try_def text_config_def text_delete_all_def)

lemma update_output_try_any: "update_output_try r w = update_output_try r w'"
proof -
  have "text_delete_all (text_config State_normal w) = text_delete_all (text_config State_normal w')"
    by (simp add: text_config_def text_delete_all_def)
  then show ?thesis by (simp add: update_output_try_def)
qed

lemma tw_state_update_output_try: "tw_state (fst (update_output_try r w)) = State_normal"
  by (simp add: update_output_try_def Let_def text_config_def text_delete_all_def
      split: option.splits)

lemma output_text_update_output:
  "output_text (fst (update_output r g)) =
     text_config State_disabled (fst (update_output_try r (output_text g)))"
  by (simp add: update_output_def split_beta)

lemma snd_update_output: "snd (update_output r g) = snd (update_output_try r (output_text g))"
  by (simp add: update_output_def split_beta)

lemma update_output_twice: "update_output r (fst (update_output r g)) = update_output r g"
proof -
  have "update_output_try r (fst (update_output_try r (output_text g))) =
        update_output_try r (output_text g)"
    by (rule update_output_try_any)
  then show ?thesis by (simp add: update_output_def split_beta)
qed

text \<open>
  C7: rendering is idempotent. Running \<open>update_output\<close> a second time on the state the
  first run left gives the same state and raises the same exception, if any; what is
  displayed does not depend on what was displayed before, since the widget is cleared
  first; and the widget is read-only afterwards.
\<close>

theorem rendering_idempotent:
  "fst (update_output r (fst (update_output r g))) = fst (update_output r g) \<and>
   snd (update_output r (fst (update_output r g))) = snd (update_output r g) \<and>
   tw_content (output_text (fst (update_output r (fst (update_output r g))))) =
     tw_content (output_text (fst (update_output r g))) \<and>
   tw_content (output_text (fst (update_output r g))) =
     tw_content (output_text (fst (update_output r g'))) \<and>
   tw_state (output_text (fst (update_output r (fst (update_output r g))))) = State_disabled"
proof -
  have same: "update_output_try r (output_text g) = update_output_try r (output_text g')"
    by (rule update_output_try_any)
  show ?thesis
    by (simp add: update_output_twice output_text_update_output same) (simp add: text_config_def)
qed


lemma thread_step_self:
  "self (thread_step env i s) = (self s)\<lparr>pipe := pipe (self (thread_step env i s))\<rparr>"
  by (simp add: thread_step_def set_thread_def root_after_def split_beta Let_def
      split: worker.splits sum.splits)

lemma thread_step_controls:
  "select_button (self (thread_step env i s)) = select_button (self s)"
  "model_combo (self (thread_step env i s)) = model_combo (self s)"
  "output_text (self (thread_step env i s)) = output_text (self s)"
  "status_var (self (thread_step env i s)) = status_var (self s)"
  "progress (self (thread_step env i s)) = progress (self s)"
  by (subst thread_step_self, simp)+

lemma run_callback_output_other:
  "(\<forall>r. cb \<noteq> Update_output r) \<Longrightarrow> output_text (fst (run_callback ths cb g)) = output_text g"
  by (cases cb)
     (simp_all add: run_callback_def init_begin_def init_ready_def init_failed_def
        transcribe_begin_def handle_error_def Let_def split: sum.splits)

lemma run_callback_output_disabled:
  "tw_state (output_text g) = State_disabled \<Longrightarrow>
   tw_state (output_text (fst (run_callback ths cb g))) = State_disabled"
proof (cases "\<exists>r. cb = Update_output r")
  case True
  then show ?thesis
    by (auto simp: run_callback_def output_text_update_output text_config_def)
next
  case False
  assume "tw_state (output_text g) = State_disabled"
  with False show ?thesis by (simp add: run_callback_output_other)
qed

lemma tk_after_output_disabled:
  "tw_state (output_text (self s)) = State_disabled \<Longrightarrow>
   tw_state (output_text (self (tk_after s))) = State_disabled"
  using run_callback_output_disabled [of "self s" "threads s"]
  by (simp add: tk_after_def split_beta split: list.splits)

lemma handlers_output:
  "output_text (self (on_model_change s)) = output_text (self s)"
  "output_text (self (transcribe_file env p s)) = output_text (self s)"
  "output_text (self (select_file env p s)) = output_text (self s)"
  by (simp_all add: on_model_change_def transcribe_file_def select_file_def spawn_def Let_def)

lemma exec_output_disabled:
  "tw_state (output_text (self s)) = State_disabled \<Longrightarrow>
   tw_state (output_text (self (exec env ev s))) = State_disabled"
  by (cases ev)
     (simp_all add: exec_def tk_after_output_disabled thread_step_controls handlers_output)

lemma reachable_output_disabled:
  "reachable s \<Longrightarrow> tw_state (output_text (self s)) = State_disabled"
proof (induction rule: reachable.induct)
  case reachable_init
  show ?case by (simp add: init_sys_def)
next
  case (reachable_exec s env ev)
  then show ?case by (simp add: exec_output_disabled)
qed

text \<open>
  C3: the text widget is read-only whenever a handler starts or ends, that is in every
  reachable state; the body of the \<open>try\<close> of \<open>update_output\<close> works on a writable
  widget; \<open>update_output\<close> leaves the widget read-only on every way out, also when the
  body raised; and no other callback, worker step or handler touches the widget.
\<close>

theorem output_read_only:
  "(reachable s \<longrightarrow> tw_state (output_text (self s)) = State_disabled) \<and>
   tw_state (fst (update_output_try r w)) = State_normal \<and>
   tw_state (output_text (fst (update_output r g))) = State_disabled \<and>
   (snd (update_output r g) \<noteq> None \<longrightarrow>
      tw_state (output_text (fst (update_output r g))) = State_disabled) \<and>
   ((\<forall>r'. cb \<noteq> Update_output r') \<longrightarrow>
      output_text (fst (run_callback ths cb g)) = output_text g) \<and>
   output_text (self (thread_step env i s)) = output_text (self s) \<and>
   output_text (self (on_model_change s)) = output_text (self s) \<and>
   output_text (self (select_file env p s)) = output_text (self s) \<and>
   output_text (self (transcribe_file env p s)) = output_text (self s)"
  by (simp add: reachable_output_disabled tw_state_update_output_try
      output_text_update_output run_callback_output_other thread_step_controls
      handlers_output text_config_def)


lemma open_end_state_eq:
  "open_end_state =
     ready_state
       \<lparr>self := (self ready_state)
          \<lparr>status_var := ''Transcription complete'',
           output_text :=
             \<lparr>tw_state = State_disabled,
              tw_content =
                [(''Full Transcription:'' @ [NL], Some Tag_header),
                 ([NL], None),
                 (''so it begins'', Some Tag_text),
                 ([NL, NL, NL], None),
                 (''Timestamped Chunks:'' @ [NL], Some Tag_header),
                 ([NL], None),
                 (''[1.50s -> 3.25s] '', Some Tag_timestamp),
                 (''so it'', Some Tag_text),
                 ([NL, NL], None)]\<rparr>\<rparr>,
        threads := [Finished, Finished],
        reported :=
          [Exn ''TypeError'' ''unsupported format string passed to NoneType.__format__'']\<rparr>"
  by (simp add: open_end_state_def job_def ready_state_eq sys_eval env_eval tr_open_end_def
      render_eval)

theorem output_read_only_witness:
  "reachable open_end_state \<and>
   tw_state (output_text (self open_end_state)) = State_disabled \<and>
   snd (update_output (Some tr_open_end) (self ready_state)) =
     Some (Exn ''TypeError'' ''unsupported format string passed to NoneType.__format__'') \<and>
   tw_state (output_text (fst (update_output (Some tr_open_end) (self ready_state)))) =
     State_disabled \<and>
   output_text (fst (run_callback [] Init_ready (self ready_state))) =
     output_text (self ready_state)"
proof -
  have r: "reachable open_end_state"
    unfolding open_end_state_def by (intro reachable_run reachable_ready_state)
  have e: "snd (update_output (Some tr_open_end) (self ready_state)) =
     Some (Exn ''TypeError'' ''unsupported format string passed to NoneType.__format__'')"
    by (simp add: tr_open_end_def render_eval)
  have c: "\<forall>r'. Init_ready \<noteq> Update_output r'" by simp
  show ?thesis
    using r e c
      output_read_only [of open_end_state "Some tr_open_end" undefined "self ready_state"
        Init_ready "[]" undefined undefined undefined]
    by simp
qed

subsection \<open>transcribe\_audio and the except clause of transcribe\<close>

lemma snd_transcribe_audio:
  "snd (transcribe_audio env p h) =
     Inr (case call_pipeline env h p of Inr r \<Rightarrow> Some r | Inl e \<Rightarrow> None)"
  by (simp add: transcribe_audio_def split: sum.splits)

lemma thread_step_running:
  "i < length (threads s) \<Longrightarrow> threads s ! i = Trn_running p h \<Longrightarrow>
   threads (thread_step env i s) ! i =
     Trn_after_update (case call_pipeline env h p of Inr r \<Rightarrow> Some r | Inl e \<Rightarrow> None)"
  by (simp add: thread_step_def set_thread_def transcribe_audio_def split: sum.splits)

lemma no_transcribe_except_iff:
  "no_transcribe_except s \<longleftrightarrow>
     (\<forall>w \<in> set (threads s). \<not> in_transcribe_except w) \<and>
     (\<forall>cb \<in> set (after_queue s). \<not> is_handle_error cb)"
  by (simp add: no_transcribe_except_def list_all_iff)

lemma nte_set_thread:
  "no_transcribe_except s \<Longrightarrow> \<not> in_transcribe_except w \<Longrightarrow>
   no_transcribe_except (set_thread i w s)"
  using set_update_subset_insert [of "threads s" i w]
  by (auto simp: no_transcribe_except_iff set_thread_def)

lemma nte_root_after:
  "no_transcribe_except s \<Longrightarrow> \<not> is_handle_error cb \<Longrightarrow>
   no_transcribe_except (root_after cb s)"
  by (auto simp: no_transcribe_except_iff root_after_def)

lemma nte_spawn:
  "no_transcribe_except s \<Longrightarrow> \<not> in_transcribe_except w \<Longrightarrow>
   no_transcribe_except (spawn w s)"
  by (auto simp: no_transcribe_except_iff spawn_def)

lemma nte_updates [simp]:
  "no_transcribe_except (s\<lparr>self := g\<rparr>) = no_transcribe_except s"
  "no_transcribe_except (s\<lparr>console := c\<rparr>) = no_transcribe_except s"
  by (simp_all add: no_transcribe_except_def)

lemma nte_thread_step:
  assumes "no_transcribe_except s"
  shows "no_transcribe_except (thread_step env i s)"
proof (cases "i < length (threads s)")
  case False
  with assms show ?thesis by (simp add: thread_step_def)
next
  case True
  then have "threads s ! i \<in> set (threads s)" by simp
  with assms have ok: "\<not> in_transcribe_except (threads s ! i)"
    by (simp add: no_transcribe_except_iff)
  show ?thesis
  proof (cases "threads s ! i")
    case (Ini_loading m)
    with True assms show ?thesis
      by (simp add: thread_step_def split_beta Let_def nte_set_thread split: sum.splits)
  next
    case (Trn_running p h)
    with True assms show ?thesis
      by (simp add: thread_step_def transcribe_audio_def nte_set_thread split: sum.splits)
  qed (use True assms ok in \<open>simp_all add: thread_step_def nte_set_thread nte_root_after\<close>)
qed

lemma nte_tk_after:
  assumes "no_transcribe_except s"
  shows "no_transcribe_except (tk_after s)"
  using assms
  by (auto simp: tk_after_def no_transcribe_except_iff split_beta split: list.splits)

lemma nte_exec:
  assumes "no_transcribe_except s"
  shows "no_transcribe_except (exec env ev s)"
  using assms
  by (cases ev)
     (simp_all add: exec_def nte_tk_after nte_thread_step on_model_change_def Let_def
        select_file_def transcribe_file_def nte_spawn)

lemma reachable_nte: "reachable s \<Longrightarrow> no_transcribe_except s"
proof (induction rule: reachable.induct)
  case reachable_init
  show ?case by (simp add: init_sys_def no_transcribe_except_def)
next
  case (reachable_exec s env ev)
  then show ?case by (simp add: nte_exec)
qed

text \<open>
  C10: \<open>transcribe_audio\<close> never raises: it returns the result of the pipeline, or
  \<open>None\<close> when the call of the pipeline raised. So the worker goes from its call of
  \<open>transcribe_audio\<close> to the place after it and not into the \<open>except\<close> clause, and,
  \<open>root.after\<close> being taken to succeed, in no reachable state is a worker in that clause
  or a \<open>handle_error\<close> queued.
\<close>

theorem transcribe_audio_never_raises:
  "snd (transcribe_audio env p h) =
     Inr (case call_pipeline env h p of Inr r \<Rightarrow> Some r | Inl e \<Rightarrow> None) \<and>
   snd (transcribe_audio env p h) \<noteq> Inl e \<and>
   (i < length (threads s) \<and> threads s ! i = Trn_running p h \<longrightarrow>
      threads (thread_step env i s) ! i =
        Trn_after_update (case call_pipeline env h p of Inr r \<Rightarrow> Some r | Inl e \<Rightarrow> None) \<and>
      \<not> in_transcribe_except (threads (thread_step env i s) ! i)) \<and>
   (reachable s \<longrightarrow> no_transcribe_except s)"
  by (simp add: snd_transcribe_audio thread_step_running reachable_nte)

lemma infer_failed_state_eq:
  "infer_failed_state =
     ready_state
       \<lparr>self := (self ready_state)\<lparr>status_var := ''Transcription complete''\<rparr>,
        threads := [Finished, Finished],
        console := console ready_state @ [''Error transcribing audio: bad audio'']\<rparr>"
  by (simp add: infer_failed_state_def job_def ready_state_eq sys_eval env_eval render_eval)

theorem transcribe_audio_never_raises_witness:
  "snd (transcribe_audio env_infer_fails ''a.wav'' (Some ''openai/whisper-small'')) = Inr None \<and>
   snd (transcribe_audio env_ok ''a.wav'' None) = Inr None \<and>
   snd (transcribe_audio env_ok ''a.wav'' (Some ''openai/whisper-small'')) = Inr (Some tr_ok) \<and>
   threads (thread_step env_infer_fails 1
      (run (map (Pair env_infer_fails) (take 4 job)) ready_state)) ! 1 = Trn_after_update None \<and>
   reachable infer_failed_state \<and> no_transcribe_except infer_failed_state"
proof -
  let ?s = "run (map (Pair env_infer_fails) (take 4 job)) ready_state"
  have r: "reachable infer_failed_state"
    unfolding infer_failed_state_def by (intro reachable_run reachable_ready_state)
  have a: "1 < length (threads ?s)"
    by (simp add: job_def ready_state_eq sys_eval env_eval)
  have b: "threads ?s ! 1 = Trn_running ''a.wav'' (Some ''openai/whisper-small'')"
    by (simp add: job_def ready_state_eq sys_eval env_eval)
  have c1: "call_pipeline env_infer_fails (Some ''openai/whisper-small'') ''a.wav'' =
            Inl (Exn ''ValueError'' ''bad audio'')"
    by (simp add: call_pipeline_def env_eval)
  have c2: "call_pipeline env_ok (Some ''openai/whisper-small'') ''a.wav'' = Inr tr_ok"
    by (simp add: call_pipeline_def env_eval)
  have c3: "call_pipeline env_ok None ''a.wav'' =
    Inl (Exn ''TypeError'' (CHR 0x27 # ''NoneType'' @ CHR 0x27 # '' object is not callable''))"
    by (simp add: call_pipeline_def)
  note t1 = transcribe_audio_never_raises [of env_infer_fails "''a.wav''"
      "Some ''openai/whisper-small''" undefined 1 ?s]
  note t2 = transcribe_audio_never_raises [of env_ok "''a.wav''" None undefined 0
      infer_failed_state]
  note t3 = transcribe_audio_never_raises [of env_ok "''a.wav''"
      "Some ''openai/whisper-small''" undefined 0 infer_failed_state]
  have g1: "snd (transcribe_audio env_infer_fails ''a.wav'' (Some ''openai/whisper-small'')) =
            Inr None"
    using t1 by (simp add: c1)
  have g2: "snd (transcribe_audio env_ok ''a.wav'' None) = Inr None"
    using t2 by (simp add: c3)
  have g3: "snd (transcribe_audio env_ok ''a.wav'' (Some ''openai/whisper-small'')) =
            Inr (Some tr_ok)"
    using t3 by (simp add: c2)
  have g4: "threads (thread_step env_infer_fails 1 ?s) ! 1 = Trn_after_update None"
    using t1 a b by (simp add: c1)
  have g5: "no_transcribe_except infer_failed_state"
    using t2 r by simp
  show ?thesis using g1 g2 g3 g4 g5 r by simp
qed


subsection \<open>A file that does not exist\<close>

text \<open>
  C8: when the path does not exist, \<open>transcribe_file\<close> sets the status to the
  file-not-found message and does nothing else: no worker is started, no callback is
  queued and the controls are as they were, so a ready application stays ready with the
  button enabled. The same holds when the path comes from the dialog.
\<close>

theorem missing_file_reported:
  "\<not> path_exists env p \<Longrightarrow>
   transcribe_file env p s = s\<lparr>self := (self s)\<lparr>status_var := ''Error: File not found''\<rparr>\<rparr> \<and>
   status_var (self (transcribe_file env p s)) = ''Error: File not found'' \<and>
   threads (transcribe_file env p s) = threads s \<and>
   after_queue (transcribe_file env p s) = after_queue s \<and>
   select_button (self (transcribe_file env p s)) = select_button (self s) \<and>
   model_combo (self (transcribe_file env p s)) = model_combo (self s) \<and>
   (is_ready s \<longrightarrow>
      is_ready (transcribe_file env p s) \<and>
      select_button (self (transcribe_file env p s)) = State_normal) \<and>
   exec env (Call_transcribe_file p) s = transcribe_file env p s \<and>
   (is_ready s \<and> p \<noteq> [] \<longrightarrow> exec env (Button_pressed p) s = transcribe_file env p s)"
  by (simp add: transcribe_file_def is_ready_def exec_def select_file_def)

theorem missing_file_reported_witness:
  "\<not> path_exists env_ok ''b.wav'' \<and> is_ready ready_state \<and>
   status_var (self (transcribe_file env_ok ''b.wav'' ready_state)) = ''Error: File not found'' \<and>
   threads (transcribe_file env_ok ''b.wav'' ready_state) = [Finished] \<and>
   after_queue (transcribe_file env_ok ''b.wav'' ready_state) = [] \<and>
   is_ready (transcribe_file env_ok ''b.wav'' ready_state) \<and>
   select_button (self (transcribe_file env_ok ''b.wav'' ready_state)) = State_normal \<and>
   exec env_ok (Button_pressed ''b.wav'') ready_state = transcribe_file env_ok ''b.wav'' ready_state"
proof -
  have n: "\<not> path_exists env_ok ''b.wav''" by (simp add: env_ok_def)
  have t: "threads ready_state = [Finished]" "after_queue ready_state = []"
    "select_button (self ready_state) = State_normal"
    by (simp_all add: ready_state_eq)
  show ?thesis
    using missing_file_reported [OF n, of ready_state, THEN conjunct2] n is_ready_ready_state t
    by simp
qed

subsection \<open>The command line\<close>










subsection \<open>Controls while a job is in flight\<close>

lemma thread_step_threads: "\<exists>w. threads (thread_step env j s) = (threads s)[j := w]"
proof (cases "j < length (threads s)")
  case False
  then have "threads (thread_step env j s) = (threads s)[j := Finished]"
    by (simp add: thread_step_def list_update_beyond)
  then show ?thesis ..
next
  case True
  show ?thesis
  proof (cases "threads s ! j")
    case Finished
    then have "threads (thread_step env j s) = (threads s)[j := Finished]"
      using True by (simp add: thread_step_def) (metis list_update_id)
    then show ?thesis ..
  qed (use True in \<open>auto simp: thread_step_def set_thread_def root_after_def split_beta
        Let_def split: sum.splits\<close>)
qed

lemma thread_step_other:
  "j \<noteq> i \<Longrightarrow> threads (thread_step env j s) ! i = threads s ! i"
  using thread_step_threads [of env j s] by auto

lemma threads_tk_after: "threads (tk_after s) = threads s"
  by (simp add: tk_after_def split_beta split: list.splits)

lemma handlers_threads_nth:
  assumes "i < length (threads s)"
  shows "threads (on_model_change s) ! i = threads s ! i"
    and "threads (transcribe_file env p s) ! i = threads s ! i"
    and "threads (select_file env p s) ! i = threads s ! i"
  using assms
  by (simp_all add: on_model_change_def transcribe_file_def select_file_def spawn_def Let_def
      nth_append)

lemma exec_other_thread:
  assumes "i < length (threads s)" and "ev \<noteq> Thread_run i"
  shows "threads (exec env ev s) ! i = threads s ! i"
proof (cases ev)
  case Tk_after
  then show ?thesis by (simp add: exec_def threads_tk_after)
next
  case (Thread_run j)
  with assms(2) have "j \<noteq> i" by simp
  with Thread_run show ?thesis by (simp add: exec_def thread_step_other)
next
  case (Combobox_selected m)
  have "threads (on_model_change (s\<lparr>self := (self s)\<lparr>model_var := m\<rparr>\<rparr>)) ! i = threads s ! i"
    using handlers_threads_nth(1) [of i "s\<lparr>self := (self s)\<lparr>model_var := m\<rparr>\<rparr>"] assms(1)
    by simp
  with Combobox_selected show ?thesis by (simp add: exec_def)
next
  case (Button_pressed p)
  with assms(1) show ?thesis by (simp add: exec_def handlers_threads_nth)
next
  case (Call_transcribe_file p)
  with assms(1) show ?thesis by (simp add: exec_def handlers_threads_nth)
qed


lemma load_in_flight_start:
  assumes "is_ready s" and "m \<in> set (map fst MODELS)" and "m \<noteq> current_model (self s)"
  shows "load_in_flight (length (threads s)) (exec env (Combobox_selected m) s)"
  using assms
  by (simp add: is_ready_def exec_def on_model_change_def spawn_def load_in_flight_def
      both_disabled_def)

lemma load_in_flight_thread_other:
  assumes "load_in_flight n s" and "i \<noteq> n"
  shows "thread_step env i s = s"
proof (cases "i < n")
  case True
  with assms(1) have "finished (take n (threads s) ! i)"
    by (simp add: load_in_flight_def list_all_length)
  with True have "finished (threads s ! i)" by simp
  then have "threads s ! i = Finished" by (cases "threads s ! i") simp_all
  then show ?thesis by (simp add: thread_step_def)
next
  case False
  with assms have "\<not> i < length (threads s)" by (simp add: load_in_flight_def)
  then show ?thesis by (simp add: thread_step_def)
qed

lemma load_in_flight_thread_self:
  assumes "load_in_flight n s"
  shows "load_in_flight n (thread_step env n s)"
proof -
  from assms have len: "n < length (threads s)" "length (threads s) = Suc n"
    by (simp_all add: load_in_flight_def)
  from assms have ph: "load_phase n (threads s ! n) (after_queue s)"
    by (simp add: load_in_flight_def)
  show ?thesis
  proof (cases "threads s ! n")
    case (Ini_loading m)
    with assms len ph show ?thesis
      by (auto simp: load_in_flight_def both_disabled_def thread_step_def set_thread_def
          split_beta Let_def split: sum.splits)
  qed (use assms len ph in \<open>auto simp: load_in_flight_def both_disabled_def thread_step_def
         set_thread_def root_after_def\<close>)
qed

lemma load_in_flight_tk_after:
  assumes "load_in_flight n s" and "\<not> completes n Tk_after s"
  shows "load_in_flight n (tk_after s)"
proof (cases "after_queue s")
  case Nil
  with assms(1) show ?thesis by (simp add: tk_after_def)
next
  case (Cons cb q)
  from assms(1) have ph: "load_phase n (threads s ! n) (after_queue s)"
    by (simp add: load_in_flight_def)
  from assms(2) Cons have nc: "\<not> load_completion n cb" by simp
  have cb: "cb = Init_begin"
    using ph nc Cons by (cases "threads s ! n") auto
  have q: "load_phase n (threads s ! n) q"
    using ph Cons cb by (cases "threads s ! n") auto
  show ?thesis
    using assms(1) Cons cb q
    by (simp add: load_in_flight_def both_disabled_def tk_after_def run_callback_def
        init_begin_def)
qed

lemma load_in_flight_exec:
  assumes "load_in_flight n s" and "\<not> completes n ev s" and "\<not> is_direct_call ev"
  shows "load_in_flight n (exec env ev s)"
proof (cases ev)
  case Tk_after
  with assms show ?thesis by (simp add: exec_def load_in_flight_tk_after)
next
  case (Thread_run i)
  show ?thesis
  proof (cases "i = n")
    case True
    with Thread_run assms(1) show ?thesis by (simp add: exec_def load_in_flight_thread_self)
  next
    case False
    with Thread_run assms(1) show ?thesis by (simp add: exec_def load_in_flight_thread_other)
  qed
next
  case (Combobox_selected m)
  with assms(1) show ?thesis by (simp add: exec_def load_in_flight_def both_disabled_def)
next
  case (Button_pressed p)
  with assms(1) show ?thesis by (simp add: exec_def load_in_flight_def both_disabled_def)
next
  case (Call_transcribe_file p)
  with assms(3) show ?thesis by simp
qed

lemma load_in_flight_disabled:
  "load_in_flight n s \<Longrightarrow> \<not> list_ex (\<lambda>x. is_direct_call (snd x)) evs \<Longrightarrow>
   disabled_until_completion n evs s"
proof (induction evs arbitrary: s)
  case Nil
  then show ?case by (simp add: load_in_flight_def)
next
  case (Cons x evs)
  obtain env ev where x: "x = (env, ev)" by (cases x)
  from Cons.prems x have nd: "\<not> is_direct_call ev"
    and rest: "\<not> list_ex (\<lambda>x. is_direct_call (snd x)) evs"
    by simp_all
  from Cons.prems(1) have bd: "both_disabled s" by (simp add: load_in_flight_def)
  show ?case
  proof (cases "completes n ev s")
    case True
    with bd x show ?thesis by simp
  next
    case False
    have "load_in_flight n (exec env ev s)"
      using Cons.prems(1) False nd by (rule load_in_flight_exec)
    then have "disabled_until_completion n evs (exec env ev s)"
      using rest by (rule Cons.IH)
    with bd x show ?thesis by simp
  qed
qed


lemma begun_state_eq:
  "begun_state =
     ready_state
       \<lparr>self := (self ready_state)
          \<lparr>select_button := State_disabled,
           status_var := ''Transcribing a.wav...'',
           progress := Started 10\<rparr>,
        threads := [Finished, Trn_call ''a.wav'']\<rparr>"
  by (simp add: begun_state_def submitted_state_eq ready_state_eq sys_eval env_eval)

lemma reachable_submitted_state: "reachable submitted_state"
  unfolding submitted_state_def by (intro reachable_exec reachable_ready_state)

text \<open>
  C1, as stated, fails for a transcription job. After the user has chosen \<open>a.wav\<close> in
  the ready application, the job is submitted and both controls still take input; after
  the first callback of the job has run, the button is disabled and the model selector
  is not.
\<close>

theorem controls_disabled_counterexample:
  "reachable submitted_state \<and>
   threads submitted_state = [Finished, Trn_after_begin ''a.wav''] \<and>
   after_queue submitted_state = [] \<and>
   select_button (self submitted_state) = State_normal \<and>
   model_combo (self submitted_state) = State_readonly \<and>
   reachable begun_state \<and>
   threads begun_state = [Finished, Trn_call ''a.wav''] \<and>
   after_queue begun_state = [] \<and>
   select_button (self begun_state) = State_disabled \<and>
   model_combo (self begun_state) = State_readonly"
proof -
  have "reachable begun_state"
    unfolding begun_state_def by (intro reachable_run reachable_submitted_state)
  then show ?thesis
    using reachable_submitted_state
    by (simp add: begun_state_eq submitted_state_eq ready_state_eq)
qed

text \<open>
  C1, amended: a model switch made in the ready application starts a worker and keeps
  both controls disabled from the submission until Tk runs the completion callback of
  the load, whatever the user, the workers and Tk do in between. A transcription job
  does not: its submission starts a worker and changes nothing else, and its first
  callback disables the button and leaves the model selector as it was. No step of a
  worker changes either control.
\<close>

theorem controls_while_job_in_flight:
  "(is_ready s \<and> m \<in> set (map fst MODELS) \<and> m \<noteq> current_model (self s) \<and>
    \<not> list_ex (\<lambda>x. is_direct_call (snd x)) evs \<longrightarrow>
      threads (exec env (Combobox_selected m) s) = threads s @ [Ini_after_begin] \<and>
      disabled_until_completion (length (threads s)) evs (exec env (Combobox_selected m) s)) \<and>
   (select_button (self s) = State_normal \<and> p \<noteq> [] \<and> path_exists env p \<longrightarrow>
      exec env (Button_pressed p) s = s\<lparr>threads := threads s @ [Trn_after_begin p]\<rparr>) \<and>
   select_button (transcribe_begin p g) = State_disabled \<and>
   model_combo (transcribe_begin p g) = model_combo g \<and>
   select_button (self (thread_step env i s)) = select_button (self s) \<and>
   model_combo (self (thread_step env i s)) = model_combo (self s)"
proof -
  have a: "threads (exec env (Combobox_selected m) s) = threads s @ [Ini_after_begin]"
    if "is_ready s" "m \<in> set (map fst MODELS)" "m \<noteq> current_model (self s)"
    using that by (simp add: is_ready_def exec_def on_model_change_def spawn_def)
  have b: "exec env (Button_pressed p) s = s\<lparr>threads := threads s @ [Trn_after_begin p]\<rparr>"
    if "select_button (self s) = State_normal" "p \<noteq> []" "path_exists env p"
    using that by (simp add: exec_def select_file_def transcribe_file_def spawn_def)
  show ?thesis
    using a b load_in_flight_disabled [OF load_in_flight_start, of s m evs env]
    by (simp add: transcribe_begin_def thread_step_controls)
qed

theorem controls_while_job_in_flight_witness:
  "is_ready ready_state \<and> ''tiny'' \<in> set (map fst MODELS) \<and>
   ''tiny'' \<noteq> current_model (self ready_state) \<and>
   threads (exec env_ok (Combobox_selected ''tiny'') ready_state) = [Finished, Ini_after_begin] \<and>
   disabled_until_completion 1
     (map (Pair env_ok)
        [Thread_run 1, Button_pressed ''a.wav'', Tk_after, Thread_run 1, Thread_run 1,
         Combobox_selected ''base'', Thread_run 1, Tk_after])
     (exec env_ok (Combobox_selected ''tiny'') ready_state) \<and>
   path_exists env_ok ''a.wav'' \<and>
   exec env_ok (Button_pressed ''a.wav'') ready_state = submitted_state"
proof -
  let ?evs = "map (Pair env_ok)
        [Thread_run 1, Button_pressed ''a.wav'', Tk_after, Thread_run 1, Thread_run 1,
         Combobox_selected ''base'', Thread_run 1, Tk_after]"
  have h1: "''tiny'' \<in> set (map fst MODELS)" by (simp add: MODELS_def)
  have h2: "''tiny'' \<noteq> current_model (self ready_state)" by (simp add: ready_state_eq)
  have h3: "\<not> list_ex (\<lambda>x. is_direct_call (snd x)) ?evs" by simp
  have h4: "select_button (self ready_state) = State_normal" by (simp add: ready_state_eq)
  have h5: "path_exists env_ok ''a.wav''" by (simp add: env_ok_def)
  have t: "threads ready_state = [Finished]" by (simp add: ready_state_eq)
  note w = controls_while_job_in_flight [of ready_state "''tiny''" ?evs env_ok "''a.wav''"
      undefined 0]
  from w is_ready_ready_state h1 h2 h3
  have "threads (exec env_ok (Combobox_selected ''tiny'') ready_state) =
          threads ready_state @ [Ini_after_begin] \<and>
        disabled_until_completion (length (threads ready_state)) ?evs
          (exec env_ok (Combobox_selected ''tiny'') ready_state)"
    by blast
  then have d: "threads (exec env_ok (Combobox_selected ''tiny'') ready_state) =
          [Finished, Ini_after_begin]"
    "disabled_until_completion 1 ?evs (exec env_ok (Combobox_selected ''tiny'') ready_state)"
    by (simp_all only: t append.simps list.size One_nat_def add_0)
  from w h4 h5
  have "exec env_ok (Button_pressed ''a.wav'') ready_state =
          ready_state\<lparr>threads := threads ready_state @ [Trn_after_begin ''a.wav'']\<rparr>"
    by blast
  then have e: "exec env_ok (Button_pressed ''a.wav'') ready_state = submitted_state"
    by (simp only: submitted_state_eq t append.simps)
  from is_ready_ready_state h1 h2 d h5 e show ?thesis by blast
qed


subsection \<open>The handle a transcription uses\<close>

lemma switched_state_threads:
  "threads switched_state =
     [Finished, Trn_running ''a.wav'' (Some ''openai/whisper-tiny''), Ini_after_ready]"
  by (simp add: switched_state_def submitted_state_eq ready_state_eq sys_eval env_eval)

text \<open>
  C6, as stated, fails. The user chooses \<open>a.wav\<close> while the handle of the small model
  is current; before the worker of this job runs, the user chooses \<open>tiny\<close> and the
  worker of that load assigns \<open>self.pipe\<close>; the transcription then runs with the handle
  of the tiny model.
\<close>

theorem handle_captured_counterexample:
  "reachable switched_state \<and>
   threads submitted_state = [Finished, Trn_after_begin ''a.wav''] \<and>
   pipe (self submitted_state) = Some ''openai/whisper-small'' \<and>
   threads switched_state ! 1 = Trn_running ''a.wav'' (Some ''openai/whisper-tiny'')"
proof -
  have "reachable switched_state"
    unfolding switched_state_def by (intro reachable_run reachable_submitted_state)
  then show ?thesis
    by (simp add: switched_state_threads submitted_state_eq ready_state_eq)
qed

lemma thread_step_call:
  "i < length (threads s) \<Longrightarrow> threads s ! i = Trn_call p \<Longrightarrow>
   threads (thread_step env i s) ! i = Trn_running p (pipe (self s))"
  by (simp add: thread_step_def set_thread_def)

text \<open>
  C6, amended: submitting a transcription job stores the path and no handle. The worker
  reads \<open>self.pipe\<close> when it evaluates the arguments of its call of \<open>transcribe_audio\<close>,
  and gets the handle that is current at that moment. From then on the call keeps the
  handle it was given: no event other than the next step of this worker changes it, and
  that step ends the call with the result of this handle.
\<close>

theorem handle_read_at_call:
  "(select_button (self s) = State_normal \<and> p \<noteq> [] \<and> path_exists env p \<longrightarrow>
      threads (exec env (Button_pressed p) s) = threads s @ [Trn_after_begin p]) \<and>
   (i < length (threads s) \<and> threads s ! i = Trn_call p \<longrightarrow>
      threads (exec env (Thread_run i) s) ! i = Trn_running p (pipe (self s))) \<and>
   (i < length (threads s) \<and> threads s ! i = Trn_running p h \<and> ev \<noteq> Thread_run i \<longrightarrow>
      threads (exec env ev s) ! i = Trn_running p h) \<and>
   (i < length (threads s) \<and> threads s ! i = Trn_running p h \<longrightarrow>
      threads (exec env (Thread_run i) s) ! i =
        Trn_after_update (case call_pipeline env h p of Inr r \<Rightarrow> Some r | Inl e \<Rightarrow> None))"
proof -
  have a: "threads (exec env (Button_pressed p) s) = threads s @ [Trn_after_begin p]"
    if "select_button (self s) = State_normal" "p \<noteq> []" "path_exists env p"
    using that by (simp add: exec_def select_file_def transcribe_file_def spawn_def)
  have b: "threads (exec env (Thread_run i) s) ! i = Trn_running p (pipe (self s))"
    if "i < length (threads s)" "threads s ! i = Trn_call p"
    using that by (simp add: exec_def thread_step_call)
  have c: "threads (exec env ev s) ! i = Trn_running p h"
    if "i < length (threads s)" "threads s ! i = Trn_running p h" "ev \<noteq> Thread_run i"
    using that exec_other_thread [of i s ev env] by simp
  have d: "threads (exec env (Thread_run i) s) ! i =
        Trn_after_update (case call_pipeline env h p of Inr r \<Rightarrow> Some r | Inl e \<Rightarrow> None)"
    if "i < length (threads s)" "threads s ! i = Trn_running p h"
    using that by (simp add: exec_def thread_step_running)
  from a b c d show ?thesis by blast
qed

theorem handle_read_at_call_witness:
  "select_button (self ready_state) = State_normal \<and> path_exists env_ok ''a.wav'' \<and>
   threads (exec env_ok (Button_pressed ''a.wav'') ready_state) =
     [Finished, Trn_after_begin ''a.wav''] \<and>
   threads begun_state ! 1 = Trn_call ''a.wav'' \<and>
   threads (exec env_ok (Thread_run 1) begun_state) ! 1 =
     Trn_running ''a.wav'' (Some ''openai/whisper-small'') \<and>
   threads switched_state ! 1 = Trn_running ''a.wav'' (Some ''openai/whisper-tiny'') \<and>
   threads (exec env_ok (Thread_run 2) switched_state) ! 1 =
     Trn_running ''a.wav'' (Some ''openai/whisper-tiny'') \<and>
   threads (exec env_ok (Thread_run 1) switched_state) ! 1 = Trn_after_update (Some tr_ok)"
proof -
  have h1: "select_button (self ready_state) = State_normal" by (simp add: ready_state_eq)
  have h2: "path_exists env_ok ''a.wav''" by (simp add: env_ok_def)
  have h3: "''a.wav'' \<noteq> []" by simp
  have t: "threads ready_state = [Finished]" by (simp add: ready_state_eq)
  have b1: "1 < length (threads begun_state)" "threads begun_state ! 1 = Trn_call ''a.wav''"
    "pipe (self begun_state) = Some ''openai/whisper-small''"
    by (simp_all add: begun_state_eq ready_state_eq)
  have s1: "1 < length (threads switched_state)"
    "threads switched_state ! 1 = Trn_running ''a.wav'' (Some ''openai/whisper-tiny'')"
    by (simp_all add: switched_state_threads)
  have ne: "Thread_run 2 \<noteq> Thread_run 1" by simp
  have cp: "call_pipeline env_ok (Some ''openai/whisper-tiny'') ''a.wav'' = Inr tr_ok"
    by (simp add: call_pipeline_def env_ok_def)
  note w1 = handle_read_at_call [of ready_state "''a.wav''" env_ok 1 undefined Tk_after]
  note w2 = handle_read_at_call [of begun_state "''a.wav''" env_ok 1 undefined Tk_after]
  note w3 = handle_read_at_call [of switched_state "''a.wav''" env_ok 1
      "Some ''openai/whisper-tiny''" "Thread_run 2"]
  from w1 h1 h2 h3 have
    "threads (exec env_ok (Button_pressed ''a.wav'') ready_state) =
       threads ready_state @ [Trn_after_begin ''a.wav'']"
    by blast
  then have g1: "threads (exec env_ok (Button_pressed ''a.wav'') ready_state) =
       [Finished, Trn_after_begin ''a.wav'']"
    by (simp only: t append.simps)
  from w2 b1(1,2) have
    "threads (exec env_ok (Thread_run 1) begun_state) ! 1 =
       Trn_running ''a.wav'' (pipe (self begun_state))"
    by blast
  then have g2: "threads (exec env_ok (Thread_run 1) begun_state) ! 1 =
       Trn_running ''a.wav'' (Some ''openai/whisper-small'')"
    by (simp only: b1(3))
  from w3 s1 ne have g3: "threads (exec env_ok (Thread_run 2) switched_state) ! 1 =
       Trn_running ''a.wav'' (Some ''openai/whisper-tiny'')"
    by blast
  from w3 s1 have
    "threads (exec env_ok (Thread_run 1) switched_state) ! 1 =
       Trn_after_update
         (case call_pipeline env_ok (Some ''openai/whisper-tiny'') ''a.wav'' of
            Inr r \<Rightarrow> Some r | Inl e \<Rightarrow> None)"
    by blast
  then have g4: "threads (exec env_ok (Thread_run 1) switched_state) ! 1 =
       Trn_after_update (Some tr_ok)"
    by (simp add: cp)
  from h1 h2 g1 b1(2) g2 s1(2) g3 g4 show ?thesis by blast
qed

subsection \<open>Failures and the status text\<close>

lemma init_failed_controls:
  "select_button (fst (init_failed e g)) = State_disabled \<and>
   model_combo (fst (init_failed e g)) = State_readonly"
  by (simp add: init_failed_def Let_def split: sum.splits)

lemma load_failed_late_eq:
  "load_failed_late =
     \<lparr>self = \<lparr>select_button = State_disabled, model_combo = State_readonly,
              model_var = ''small'',
              status_var = ''Downloading model... This may take a few minutes...'',
              progress = Stopped,
              output_text = \<lparr>tw_state = State_disabled, tw_content = []\<rparr>,
              pipe = None, current_model = ''small''\<rparr>,
      after_queue = [], threads = [Finished],
      console = [''Using device: cpu'', NL # ''Downloading/Loading small model...''],
      reported = [NameError_e]\<rparr>"
  by (simp add: load_failed_late_def init_sys_def sys_eval env_eval)

lemma load_failed_early_eq:
  "load_failed_early =
     \<lparr>self = \<lparr>select_button = State_disabled, model_combo = State_readonly,
              model_var = ''small'',
              status_var = ''Error initializing: no connection'',
              progress = Stopped,
              output_text = \<lparr>tw_state = State_disabled, tw_content = []\<rparr>,
              pipe = None, current_model = ''small''\<rparr>,
      after_queue = [], threads = [Finished],
      console = [''Using device: cpu'', NL # ''Downloading/Loading small model...''],
      reported = []\<rparr>"
  by (simp add: load_failed_early_def init_sys_def sys_eval env_eval)

text \<open>
  C5 on the code: the load of the default model fails with the message
  \<open>no connection\<close>. In both orders of the worker and Tk the button ends disabled and the
  model selector enabled. When the worker has left its \<open>except\<close> clause before Tk runs
  the queued callback, the callback raises NameError at \<open>str(e)\<close>: the status text is
  still the one of the download and does not show the failure. When Tk runs the callback
  first, the status text shows the failure.
\<close>

theorem load_failure_status_lost:
  "reachable load_failed_late \<and>
   select_button (self load_failed_late) = State_disabled \<and>
   model_combo (self load_failed_late) = State_readonly \<and>
   status_var (self load_failed_late) = ''Downloading model... This may take a few minutes...'' \<and>
   reported load_failed_late = [NameError_e] \<and>
   reachable load_failed_early \<and>
   select_button (self load_failed_early) = State_disabled \<and>
   model_combo (self load_failed_early) = State_readonly \<and>
   status_var (self load_failed_early) = ''Error initializing: no connection'' \<and>
   reported load_failed_early = []"
proof -
  have "reachable load_failed_late"
    unfolding load_failed_late_def by (intro reachable_run reachable_init)
  moreover have "reachable load_failed_early"
    unfolding load_failed_early_def by (intro reachable_run reachable_init)
  ultimately show ?thesis by (simp add: load_failed_late_eq load_failed_early_eq)
qed

text \<open>
  C2 on the code: the engine raises on \<open>a.wav\<close>. \<open>transcribe_audio\<close> prints the error
  on the console and returns \<open>None\<close>; \<open>update_output\<close> clears the display and sets the
  status text to the one of a completed transcription. The status text never shows the
  failure, and nothing is reported.
\<close>

theorem inference_failure_reported_complete:
  "reachable infer_failed_state \<and>
   status_var (self infer_failed_state) = ''Transcription complete'' \<and>
   tw_content (output_text (self infer_failed_state)) = [] \<and>
   select_button (self infer_failed_state) = State_normal \<and>
   last (console infer_failed_state) = ''Error transcribing audio: bad audio'' \<and>
   reported infer_failed_state = [] \<and>
   after_queue infer_failed_state = [] \<and>
   threads infer_failed_state = [Finished, Finished]"
proof -
  have "reachable infer_failed_state"
    unfolding infer_failed_state_def by (intro reachable_run reachable_ready_state)
  then show ?thesis by (simp add: infer_failed_state_eq ready_state_eq)
qed

end
